theory Spec2Isabelle
  imports Main "HOL-Library.Word"
begin

unbundle bit_operations_syntax

section \<open>Shared types\<close>

type_synonym u32 = "32 word"
type_synonym uint = "64 word"
type_synonym bytes = "8 word list"

text \<open>
  Go panics when a slice is indexed outside \<open>0 \<le> i < len\<close>.  Every slice read of the
  source goes through \<open>at\<close>, so that the panic is a value of the model.
\<close>

datatype panic = IndexOutOfRange

definition at :: "'a list \<Rightarrow> int \<Rightarrow> panic + 'a" where
  "at h i = (if 0 \<le> i \<and> i < int (length h) then Inr (h ! nat i) else Inl IndexOutOfRange)"

section \<open>Ordered heaps (udt/datapacket_heap.go and the packet ID heap)\<close>

text \<open>
  \<open>packet.DataPacket\<close> carries the sequence number \<open>Seq\<close> (a \<open>uint32\<close> in
  datapacket_heap.go, where it is compared with a \<open>uint32\<close> argument) and its payload.
  \<open>packet.PacketID\<close> is a struct with the single field \<open>Seq\<close>.
  The heaps are Go slices; the loop indices are Go \<open>int\<close>s.  They never exceed twice the
  length of a slice, so 64-bit overflow of \<open>idx * 2\<close> cannot occur and \<open>int\<close> is exact.
\<close>

record DataPacket =
  Seq :: u32
  Data :: bytes

record PacketID =
  Seq :: u32

type_synonym dataPacketHeap = "DataPacket list"
type_synonym packetIDHeap = "PacketID list"

text \<open>\<open>func (h dataPacketHeap) Less(i, j int) bool { return h[i].Seq < h[j].Seq }\<close>\<close>

definition dataPacketHeap_Less :: "dataPacketHeap \<Rightarrow> int \<Rightarrow> int \<Rightarrow> panic + bool" where
  "dataPacketHeap_Less h i j =
     (case at h i of
        Inl e \<Rightarrow> Inl e
      | Inr x \<Rightarrow> (case at h j of
                   Inl e \<Rightarrow> Inl e
                 | Inr y \<Rightarrow> Inr (DataPacket.Seq x < DataPacket.Seq y)))"

text \<open>\<open>func (h packetIDHeap) Less(i, j int) bool { return h[i].Seq < h[j].Seq }\<close>\<close>

definition packetIDHeap_Less :: "packetIDHeap \<Rightarrow> int \<Rightarrow> int \<Rightarrow> panic + bool" where
  "packetIDHeap_Less h i j =
     (case at h i of
        Inl e \<Rightarrow> Inl e
      | Inr x \<Rightarrow> (case at h j of
                   Inl e \<Rightarrow> Inl e
                 | Inr y \<Rightarrow> Inr (PacketID.Seq x < PacketID.Seq y)))"

text \<open>
  The loops of \<open>Min\<close>, \<open>Find\<close> and \<open>Remove\<close> have no bound in the source.  They are
  modelled as partial functions into \<open>option\<close>: \<open>None\<close> is a loop that never returns,
  \<open>Some (Inl e)\<close> a panic, \<open>Some (Inr r)\<close> a normal return of \<open>r\<close>.
\<close>

text \<open>
  \<open>dataPacketHeap.Min\<close>: \<open>idx := 0; for { newIdx := idx * 2; if newIdx >= len { return h[idx], idx };
  idx = newIdx }\<close>.
\<close>

partial_function (option) dataPacketHeap_Min_loop ::
  "dataPacketHeap \<Rightarrow> int \<Rightarrow> (panic + DataPacket \<times> int) option" where
  "dataPacketHeap_Min_loop h idx =
     (if idx * 2 \<ge> int (length h)
      then Some (case at h idx of Inl e \<Rightarrow> Inl e | Inr x \<Rightarrow> Inr (x, idx))
      else dataPacketHeap_Min_loop h (idx * 2))"

definition dataPacketHeap_Min :: "dataPacketHeap \<Rightarrow> (panic + DataPacket \<times> int) option" where
  "dataPacketHeap_Min h = dataPacketHeap_Min_loop h 0"

text \<open>
  \<open>dataPacketHeap.Find\<close>: walks from index 0, to \<open>idx * 2\<close> when the entry is larger than
  the packet ID looked for and to \<open>idx * 2 + 1\<close> when it is smaller.  The result is the
  packet found (\<open>None\<close> for Go's \<open>nil\<close>) and its index, or \<open>-1\<close>.
\<close>

partial_function (option) dataPacketHeap_Find_loop ::
  "dataPacketHeap \<Rightarrow> u32 \<Rightarrow> int \<Rightarrow> (panic + DataPacket option \<times> int) option" where
  "dataPacketHeap_Find_loop h packetID idx =
     (if idx < int (length h)
      then (case at h idx of
              Inl e \<Rightarrow> Some (Inl e)
            | Inr x \<Rightarrow>
                if DataPacket.Seq x = packetID then Some (Inr (Some x, idx))
                else if DataPacket.Seq x > packetID
                  then dataPacketHeap_Find_loop h packetID (idx * 2)
                  else dataPacketHeap_Find_loop h packetID (idx * 2 + 1))
      else Some (Inr (None, -1)))"

definition dataPacketHeap_Find ::
  "dataPacketHeap \<Rightarrow> u32 \<Rightarrow> (panic + DataPacket option \<times> int) option" where
  "dataPacketHeap_Find h packetID = dataPacketHeap_Find_loop h packetID 0"

text \<open>
  \<open>dataPacketHeap.Remove\<close>: the same walk; on a hit it calls \<open>heap.Remove(h, idx)\<close> of
  Go's standard library \<open>container/heap\<close> and returns true.  The library function is
  the parameter \<open>heap_Remove\<close>.  The result is the heap afterwards and the boolean.
\<close>

partial_function (option) dataPacketHeap_Remove_loop ::
  "(dataPacketHeap \<Rightarrow> int \<Rightarrow> dataPacketHeap) \<Rightarrow> dataPacketHeap \<Rightarrow> u32 \<Rightarrow> int
     \<Rightarrow> (panic + dataPacketHeap \<times> bool) option" where
  "dataPacketHeap_Remove_loop heap_Remove h packetID idx =
     (if idx < int (length h)
      then (case at h idx of
              Inl e \<Rightarrow> Some (Inl e)
            | Inr x \<Rightarrow>
                if DataPacket.Seq x = packetID then Some (Inr (heap_Remove h idx, True))
                else if DataPacket.Seq x > packetID
                  then dataPacketHeap_Remove_loop heap_Remove h packetID (idx * 2)
                  else dataPacketHeap_Remove_loop heap_Remove h packetID (idx * 2 + 1))
      else Some (Inr (h, False)))"

definition dataPacketHeap_Remove ::
  "(dataPacketHeap \<Rightarrow> int \<Rightarrow> dataPacketHeap) \<Rightarrow> dataPacketHeap \<Rightarrow> u32
     \<Rightarrow> (panic + dataPacketHeap \<times> bool) option" where
  "dataPacketHeap_Remove heap_Remove h packetID =
     dataPacketHeap_Remove_loop heap_Remove h packetID 0"

text \<open>
  The order \<open>container/heap\<close> maintains with \<open>Less\<close>: no entry is smaller than its
  parent, the parent of index \<open>i\<close> being \<open>(i - 1) / 2\<close>.
\<close>

definition heap_ordered :: "dataPacketHeap \<Rightarrow> bool" where
  "heap_ordered h =
     list_all (\<lambda>i. DataPacket.Seq (h ! ((i - 1) div 2)) \<le> DataPacket.Seq (h ! i)) [1..<length h]"

text \<open>
  \<open>packetIDHeap.Min(greaterEqual, lessEqual)\<close>.  The first loop is \<open>for idx < len\<close>;
  when it ends without a return and the range is wrapped, the second loop (\<open>for { ... }\<close>)
  starts again from index 0.  \<open>next >= len && h[idx].Seq <= lessEqual.Seq\<close> reads
  \<open>h[idx]\<close> only when \<open>next >= len\<close>.
\<close>

partial_function (option) packetIDHeap_Min_wrap_loop ::
  "packetIDHeap \<Rightarrow> PacketID \<Rightarrow> int \<Rightarrow> (panic + PacketID \<times> int) option" where
  "packetIDHeap_Min_wrap_loop h lessEqual idx =
     (if idx * 2 \<ge> int (length h)
      then (case at h idx of
              Inl e \<Rightarrow> Some (Inl e)
            | Inr x \<Rightarrow>
                if PacketID.Seq x \<le> PacketID.Seq lessEqual then Some (Inr (x, idx))
                else packetIDHeap_Min_wrap_loop h lessEqual (idx * 2))
      else packetIDHeap_Min_wrap_loop h lessEqual (idx * 2))"

partial_function (option) packetIDHeap_Min_loop ::
  "packetIDHeap \<Rightarrow> PacketID \<Rightarrow> PacketID \<Rightarrow> bool \<Rightarrow> int \<Rightarrow> (panic + PacketID \<times> int) option" where
  "packetIDHeap_Min_loop h greaterEqual lessEqual wrapped idx =
     (if idx < int (length h)
      then (case at h idx of
              Inl e \<Rightarrow> Some (Inl e)
            | Inr pid \<Rightarrow>
                if PacketID.Seq pid = PacketID.Seq greaterEqual then Some (Inr (pid, idx))
                else
                  (let next = (if PacketID.Seq pid \<ge> PacketID.Seq greaterEqual
                               then idx * 2 else idx * 2 + 1)
                   in if next \<ge> int (length h) \<and> PacketID.Seq pid > PacketID.Seq greaterEqual
                         \<and> (wrapped \<or> PacketID.Seq pid \<le> PacketID.Seq lessEqual)
                      then Some (Inr (pid, idx))
                      else packetIDHeap_Min_loop h greaterEqual lessEqual wrapped next))
      else if wrapped then packetIDHeap_Min_wrap_loop h lessEqual 0
      else Some (Inr (\<lparr>PacketID.Seq = 0\<rparr>, -1)))"

definition packetIDHeap_Min ::
  "packetIDHeap \<Rightarrow> PacketID \<Rightarrow> PacketID \<Rightarrow> (panic + PacketID \<times> int) option" where
  "packetIDHeap_Min h greaterEqual lessEqual =
     packetIDHeap_Min_loop h greaterEqual lessEqual
       (PacketID.Seq greaterEqual > PacketID.Seq lessEqual) 0"


section \<open>The socket (udt/udtsocket.go)\<close>

text \<open>
  The source file holds two revisions of the socket; the model follows the later one, which
  has the eight socket states, the deadlines and the RTT and rate estimates.
\<close>

datatype sockState =
    sockStateInit
  | sockStateRendezvous
  | sockStateConnecting
  | sockStateConnected
  | sockStateClosed
  | sockStateRefused
  | sockStateCorrupted
  | sockStateTimeout

text \<open>
  Errors are \<open>errors.New(msg)\<close> values, \<open>syscall.ETIMEDOUT\<close>, or the error returned by the
  operating system when the interfaces cannot be listed.
\<close>

datatype error = errors_New string | ETIMEDOUT | os_error string

text \<open>
  A \<open>net.UDPAddr\<close>.  \<open>IP_Equal\<close> is \<open>net.IP.Equal\<close> of Go's standard library: byte
  equality for equal lengths, and a 4-byte address equals its 16-byte IPv4-in-IPv6 form.
\<close>

record UDPAddr =
  IP :: bytes
  Port :: int

definition v4InV6Prefix :: bytes where
  "v4InV6Prefix = [0, 0, 0, 0, 0, 0, 0, 0, 0, 0, 255, 255]"

definition IP_Equal :: "bytes \<Rightarrow> bytes \<Rightarrow> bool" where
  "IP_Equal ip x =
     (if length ip = length x then ip = x
      else if length ip = 4 \<and> length x = 16 then take 12 x = v4InV6Prefix \<and> ip = drop 12 x
      else if length ip = 16 \<and> length x = 4 then take 12 ip = v4InV6Prefix \<and> drop 12 ip = x
      else False)"

text \<open>
  A \<open>time.Timer\<close> used as a deadline: its channel holds a value once the timer has fired,
  until a receive takes it.  The channel of a timer is never closed, so the \<open>!ok\<close>
  branches of the two \<open>select\<close> statements are never taken.
\<close>

datatype timer = TimerRunning | TimerFired | TimerDrained

record sendMessage =
  content :: bytes
  tim :: nat
  ttl :: nat

record shutdownMessage =
  sd_sockState :: sockState
  permitLinger :: bool
  err :: "error option"

text \<open>
  Modelled from the spec: the packet kinds and the handshake payload of package
  \<open>packet\<close>, which is not among the sources.  The spec gives the request types as
  1 = request, -1 = response, 0 = rendezvous, -2 = response2, 1000 = refused, and the
  socket types stream and datagram.
\<close>

datatype SocketType = TypeSTREAM | TypeDGRAM

type_synonym HandshakeReqType = int

definition HsRequest :: HandshakeReqType where "HsRequest = 1"
definition HsRendezvous :: HandshakeReqType where "HsRendezvous = 0"
definition HsResponse :: HandshakeReqType where "HsResponse = -1"
definition HsResponse2 :: HandshakeReqType where "HsResponse2 = -2"
definition HsRefused :: HandshakeReqType where "HsRefused = 1000"

record HandshakePacket =
  UdtVer :: u32
  SockType :: SocketType
  InitPktSeq :: PacketID
  MaxPktSize :: u32
  MaxFlowWinSize :: u32
  ReqType :: HandshakeReqType
  SockID :: u32
  SynCookie :: u32
  SockAddr :: bytes

datatype Packet =
    Handshake HandshakePacket
  | ShutdownPacket
  | AckPacket
  | LightAckPacket
  | NakPacket
  | UserDefControlPacket
  | Ack2Packet
  | KeepAlivePacket
  | DataPkt DataPacket

record recvPktEvent =
  pkt :: Packet
  now :: nat

text \<open>
  The fields of \<open>udtSocket\<close>.  A buffered channel is the list of the values it holds,
  oldest first; the capacities are those of \<open>newSocket\<close> (256, and 5 for
  \<open>shutdownEvent\<close>).  A \<open>nil\<close> byte slice is \<open>None\<close>.  \<open>connectWait\<close>, \<open>connTimeout\<close>
  and \<open>connRetry\<close> are true when the pointer or channel is not \<open>nil\<close>.  The mutexes are
  not modelled: every function below runs as one step.
\<close>

record udtSocket =
  raddr :: UDPAddr
  udtVer :: int
  isDatagram :: bool
  isServer :: bool
  sockID :: u32
  farSockID :: u32
  initPktSeq :: PacketID
  connectWait :: bool
  sockState :: sockState
  mtu :: u32
  maxFlowWinSize :: uint
  currPartialRead :: "bytes option"
  readDeadline :: "timer option"
  readDeadlinePassed :: bool
  writeDeadline :: "timer option"
  writeDeadlinePassed :: bool
  rtt :: uint
  rttVar :: uint
  deliveryRate :: uint
  bandwidth :: uint
  messageIn :: "bytes option list"
  messageOut :: "sendMessage list"
  messageOutClosed :: bool
  recvEvent :: "recvPktEvent list"
  sendEvent :: "recvPktEvent list"
  shutdownEvent :: "shutdownMessage list"
  connTimeout :: bool
  connRetry :: bool

subsection \<open>RTT and rate estimates\<close>

text \<open>
  Go's \<open>uint\<close> is 64 bits wide on the platforms the package is built for; \<open>*\<close> and \<open>+\<close>
  wrap around and \<open>>> k\<close> is \<open>drop_bit k\<close>.
\<close>

definition absdiff :: "uint \<Rightarrow> uint \<Rightarrow> uint" where
  "absdiff a b = (if a < b then b - a else a - b)"

text \<open>
  \<open>applyRTT\<close>: \<open>s.rttVar = (s.rttVar*3 + absdiff(s.rtt, rtt)) >> 2\<close>, then
  \<open>s.rtt = (s.rtt*7 + rtt) >> 3\<close>.  The variance is computed from the old \<open>s.rtt\<close>.
\<close>

definition applyRTT :: "udtSocket \<Rightarrow> uint \<Rightarrow> udtSocket" where
  "applyRTT s sample =
     (let s1 = s\<lparr>rttVar := drop_bit 2 (rttVar s * 3 + absdiff (rtt s) sample)\<rparr>
      in s1\<lparr>rtt := drop_bit 3 (rtt s1 * 7 + sample)\<rparr>)"

text \<open>\<open>applyReceiveRates\<close>: each estimate is updated only when its sample is positive.\<close>

definition applyReceiveRates :: "udtSocket \<Rightarrow> uint \<Rightarrow> uint \<Rightarrow> udtSocket" where
  "applyReceiveRates s dRate bw =
     (let s1 = (if dRate > 0
                then s\<lparr>deliveryRate := drop_bit 3 (deliveryRate s * 7 + dRate)\<rparr> else s)
      in if bw > 0 then s1\<lparr>bandwidth := drop_bit 3 (bandwidth s1 * 7 + bw)\<rparr> else s1)"

subsection \<open>Construction\<close>

text \<open>
  \<open>newSocket\<close>.  The multiplexer's MTU, \<open>config.MaxPacketSize\<close> and
  \<open>config.MaxFlowWinSize\<close>, the default flow window of \<open>DefaultConfig()\<close> and the result of \<open>randUint32()\<close> are
  parameters: their declarations are not among the sources.  Fields the composite literal
  does not mention have Go's zero value.
\<close>

definition newSocket ::
  "uint \<Rightarrow> uint \<Rightarrow> uint \<Rightarrow> uint \<Rightarrow> u32 \<Rightarrow> u32 \<Rightarrow> bool \<Rightarrow> bool \<Rightarrow> UDPAddr \<Rightarrow> udtSocket" where
  "newSocket m_mtu cfgPacketSize cfgFlowWin cfgDefaultFlowWin rand sid srv dgram addr =
     (let mtu0 = (if cfgPacketSize > 0 \<and> cfgPacketSize < m_mtu then cfgPacketSize else m_mtu);
          fw0 = (if cfgFlowWin = 0 then cfgDefaultFlowWin else cfgFlowWin);
          fw1 = (if fw0 < 32 then 32 else fw0)
      in \<lparr> raddr = addr, udtVer = 4, isDatagram = dgram, isServer = srv, sockID = sid,
           farSockID = 0, initPktSeq = \<lparr>PacketID.Seq = rand\<rparr>, connectWait = False,
           sockState = sockStateInit, mtu = ucast mtu0, maxFlowWinSize = fw1,
           currPartialRead = None, readDeadline = None, readDeadlinePassed = False,
           writeDeadline = None, writeDeadlinePassed = False, rtt = 0, rttVar = 0,
           deliveryRate = 16, bandwidth = 1, messageIn = [], messageOut = [],
           messageOutClosed = False, recvEvent = [], sendEvent = [], shutdownEvent = [],
           connTimeout = False, connRetry = False \<rparr>)"

subsection \<open>Read and Write\<close>

definition connectionError :: "udtSocket \<Rightarrow> error option" where
  "connectionError s =
     (case sockState s of
        sockStateRefused \<Rightarrow> Some (errors_New ''Connection refused by remote host'')
      | sockStateCorrupted \<Rightarrow> Some (errors_New ''Connection closed due to protocol error'')
      | sockStateClosed \<Rightarrow> Some (errors_New ''Connection closed'')
      | sockStateTimeout \<Rightarrow> Some (errors_New ''Connection timed out'')
      | _ \<Rightarrow> None)"

definition isOpen :: "udtSocket \<Rightarrow> bool" where
  "isOpen s =
     (case sockState s of
        sockStateClosed \<Rightarrow> False
      | sockStateRefused \<Rightarrow> False
      | sockStateCorrupted \<Rightarrow> False
      | sockStateTimeout \<Rightarrow> False
      | _ \<Rightarrow> True)"

text \<open>
  A call either returns, or is suspended on a channel operation none of whose cases is
  ready (\<open>Blocks\<close>; what happens when another goroutine wakes it is not modelled), or
  panics.  When two cases of a \<open>select\<close> are ready Go takes either one; the choice is
  the argument \<open>pick\<close>, true for the deadline case.
\<close>

datatype chan_panic = SendOnClosedChannel

datatype 'a outcome = Blocks | Panics chan_panic | Returns 'a

text \<open>
  \<open>fetchReadPacket(blocking)\<close>: the next inbound message (which may be \<open>nil\<close>) and an
  error.  Blocking, it first fails with \<open>ETIMEDOUT\<close> when the read deadline has passed and
  then selects between \<open>messageIn\<close> and the deadline timer; not blocking, it returns
  \<open>nil, nil\<close> when nothing is queued.
\<close>

definition fetchReadPacket ::
  "udtSocket \<Rightarrow> bool \<Rightarrow> bool \<Rightarrow> (bytes option \<times> error option \<times> udtSocket) outcome" where
  "fetchReadPacket s blocking pick =
     (if blocking then
        (if readDeadlinePassed s then Returns (None, Some ETIMEDOUT, s)
         else
           (let expired = Returns (None, Some ETIMEDOUT,
                              s\<lparr>readDeadline := Some TimerDrained, readDeadlinePassed := True\<rparr>)
            in case messageIn s of
                 [] \<Rightarrow> if readDeadline s = Some TimerFired then expired else Blocks
               | m # ms \<Rightarrow>
                   if readDeadline s = Some TimerFired \<and> pick then expired
                   else Returns (m, None, s\<lparr>messageIn := ms\<rparr>)))
      else
        (case messageIn s of
           [] \<Rightarrow> Returns (None, None, s)
         | m # ms \<Rightarrow> Returns (m, None, s\<lparr>messageIn := ms\<rparr>)))"

text \<open>
  Go's \<open>copy(dst[idx:], src)\<close>: the number of bytes copied and the buffer afterwards.
  Copying from a \<open>nil\<close> slice copies nothing.
\<close>

definition slice_len :: "bytes option \<Rightarrow> nat" where
  "slice_len m = (case m of None \<Rightarrow> 0 | Some c \<Rightarrow> length c)"

definition copy_at :: "bytes \<Rightarrow> nat \<Rightarrow> bytes option \<Rightarrow> nat \<times> bytes" where
  "copy_at dst idx src =
     (let c = (case src of None \<Rightarrow> [] | Some c \<Rightarrow> c);
          k = min (length dst - idx) (length c)
      in (k, take idx dst @ take k c @ drop (idx + k) dst))"

text \<open>
  The tail of one iteration of the stream loop of \<open>Read\<close>, from \<open>thisN := copy(...)\<close> on:
  the socket, the buffer, \<open>idx\<close> and \<open>n\<close> afterwards.  The source compares the running
  total \<open>n\<close>, not \<open>thisN\<close>, with the length of the partial read.
\<close>

definition stream_copy :: "udtSocket \<Rightarrow> bytes \<Rightarrow> nat \<Rightarrow> nat \<Rightarrow> udtSocket \<times> bytes \<times> nat \<times> nat" where
  "stream_copy s p idx n =
     (let (thisN, p') = copy_at p idx (currPartialRead s);
          n' = n + thisN;
          idx' = idx + thisN
      in (s\<lparr>currPartialRead :=
              (if n' \<ge> slice_len (currPartialRead s) then None
               else Some (drop n' (the (currPartialRead s))))\<rparr>, p', idx', n'))"

function Read_stream_loop ::
  "error option \<Rightarrow> bool \<Rightarrow> udtSocket \<Rightarrow> bytes \<Rightarrow> nat \<Rightarrow> nat
     \<Rightarrow> (nat \<times> error option \<times> bytes \<times> udtSocket) outcome" where
  "Read_stream_loop connErr pick s p idx n =
     (if idx < length p then
        (if currPartialRead s = None then
           (case fetchReadPacket s (n = 0 \<and> connErr = None) pick of
              Blocks \<Rightarrow> Blocks
            | Panics e \<Rightarrow> Panics e
            | Returns (msg, rerr, s1) \<Rightarrow>
                if rerr \<noteq> None then Returns (n, rerr, p, s1\<lparr>currPartialRead := msg\<rparr>)
                else if msg = None \<and> n \<noteq> 0 then Returns (n, None, p, s1\<lparr>currPartialRead := msg\<rparr>)
                else if msg = None \<and> connErr \<noteq> None
                  then Returns (n, connErr, p, s1\<lparr>currPartialRead := msg\<rparr>)
                else (case stream_copy (s1\<lparr>currPartialRead := msg\<rparr>) p idx n of
                        (s', p', idx', n') \<Rightarrow> Read_stream_loop connErr pick s' p' idx' n'))
         else (case stream_copy s p idx n of
                 (s', p', idx', n') \<Rightarrow> Read_stream_loop connErr pick s' p' idx' n'))
      else Returns (n, None, p, s))"
  by pat_completeness auto
termination
proof (relation "measure (\<lambda>(connErr, pick, s, p, idx, n).
            2 * length (messageIn s) + 2 * (length p - idx)
            + (if currPartialRead s = None then 0 else 1))", goal_cases)
  case 1
  show ?case by simp
next
  have copy: "messageIn t' = messageIn t
      \<and> 2 * (length p' - idx') + (if currPartialRead t' = None then 0 else 1)
          \<le> 2 * (length p - idx)"
    if "(t', p', idx', n') = stream_copy t p idx n" and "idx < length p"
    for t t' :: udtSocket and p p' idx idx' n n'
    using that
    by (cases "currPartialRead t")
       (auto simp: stream_copy_def copy_at_def slice_len_def Let_def min_def split: if_splits)
  have fetch: "length (messageIn t') < length (messageIn t)"
    if "fetchReadPacket t b pick = Returns (x, None, t')" and "x \<noteq> None \<or> b"
    for t t' :: udtSocket and b pick x
    using that
    by (cases "messageIn t") (auto simp: fetchReadPacket_def Let_def split: if_splits)
  {
    case (2 connErr pick s p idx n x3 x y xa ya s' yb p' yc idx' n')
    then have f: "fetchReadPacket s (n = 0 \<and> connErr = None) pick = Returns (x, None, ya)"
      and b: "x \<noteq> None \<or> (n = 0 \<and> connErr = None)"
      and c: "(s', p', idx', n') = stream_copy (ya\<lparr>currPartialRead := x\<rparr>) p idx n"
      by auto
    from fetch [OF f b] copy [OF c \<open>idx < length p\<close>] show ?case by auto
  next
    case (3 connErr pick s p idx n s' y p' ya idx' n')
    then have c: "(s', p', idx', n') = stream_copy s p idx n" by simp
    from copy [OF c \<open>idx < length p\<close>] \<open>currPartialRead s \<noteq> None\<close> show ?case by auto
  }
qed

text \<open>
  \<open>Read(p)\<close>: the count, the error, the buffer afterwards and the socket afterwards.
\<close>

definition Read ::
  "udtSocket \<Rightarrow> bytes \<Rightarrow> bool \<Rightarrow> (nat \<times> error option \<times> bytes \<times> udtSocket) outcome" where
  "Read s p pick =
     (let connErr = connectionError s in
      if isDatagram s then
        (case fetchReadPacket s (connErr = None) pick of
           Blocks \<Rightarrow> Blocks
         | Panics e \<Rightarrow> Panics e
         | Returns (msg, rerr, s1) \<Rightarrow>
             if rerr \<noteq> None then Returns (0, rerr, p, s1)
             else if msg = None \<and> connErr \<noteq> None then Returns (0, connErr, p, s1)
             else (let (n, p') = copy_at p 0 msg
                   in Returns (n, if n < slice_len msg then Some (errors_New ''Message truncated'')
                                  else None, p', s1)))
      else Read_stream_loop connErr pick s p 0 0)"

text \<open>
  \<open>Write(p)\<close> at time \<open>tnow\<close>.  The \<open>switch\<close> has cases for the states refused, corrupted and
  closed only.  A send on \<open>messageOut\<close> is ready when the channel has room or is closed,
  and panics when it is closed.
\<close>

definition Write ::
  "udtSocket \<Rightarrow> bytes \<Rightarrow> nat \<Rightarrow> bool \<Rightarrow> (nat \<times> error option \<times> udtSocket) outcome" where
  "Write s p tnow pick =
     (case sockState s of
        sockStateRefused \<Rightarrow> Returns (0, Some (errors_New ''Connection refused by remote host''), s)
      | sockStateCorrupted \<Rightarrow>
          Returns (0, Some (errors_New ''Connection closed due to protocol error''), s)
      | sockStateClosed \<Rightarrow> Returns (0, Some (errors_New ''Connection closed''), s)
      | _ \<Rightarrow>
          (if writeDeadlinePassed s then Returns (length p, Some ETIMEDOUT, s)
           else
             (let expired = Returns (length p, Some ETIMEDOUT,
                               s\<lparr>writeDeadline := Some TimerDrained, writeDeadlinePassed := True\<rparr>);
                  sent = (if messageOutClosed s then Panics SendOnClosedChannel
                          else Returns (length p, None,
                                 s\<lparr>messageOut := messageOut s
                                      @ [\<lparr>content = p, tim = tnow, ttl = 0\<rparr>]\<rparr>));
                  can_send = (messageOutClosed s \<or> length (messageOut s) < 256);
                  fired = (writeDeadline s = Some TimerFired)
              in if can_send \<and> fired then (if pick then expired else sent)
                 else if can_send then sent
                 else if fired then expired
                 else Blocks)))"

subsection \<open>Handshake and packet dispatch\<close>

text \<open>
  The socket calls into its congestion control, its sender and receiver and its
  multiplexer.  Of these only \<open>multiplexer.sendPacket\<close> is among the sources (it stamps the
  packet and queues it on the multiplexer's own channel).  The calls are returned as a
  list, in order; they act on their own objects and are taken not to write the socket
  fields modelled here.  Log output is not modelled.
\<close>

datatype call =
    cong_onPktSent Packet
  | m_sendPacket UDPAddr u32 u32 Packet
  | newUdtSocketSend
  | newUdtSocketRecv
  | cong_init PacketID
  | recv_configureHandshake HandshakePacket
  | send_configureHandshake HandshakePacket bool
  | go_goManageConnection
  | connectWait_Done
  | m_endRendezvous
  | cong_onCustomMsg

text \<open>
  \<open>sendHandshake(synCookie, reqType)\<close>; \<open>ts\<close> is the time since the socket was created,
  in microseconds, as the source computes it from the clock.
\<close>

definition sendHandshake :: "udtSocket \<Rightarrow> u32 \<Rightarrow> HandshakeReqType \<Rightarrow> u32 \<Rightarrow> call list" where
  "sendHandshake s synCookie reqType ts =
     (let p = \<lparr> UdtVer = of_int (udtVer s),
                SockType = (if isDatagram s then TypeDGRAM else TypeSTREAM),
                InitPktSeq = initPktSeq s,
                MaxPktSize = mtu s,
                MaxFlowWinSize = ucast (maxFlowWinSize s),
                ReqType = reqType,
                SockID = sockID s,
                SynCookie = synCookie,
                SockAddr = IP (raddr s) \<rparr>
      in [cong_onPktSent (Handshake p), m_sendPacket (raddr s) (farSockID s) ts (Handshake p)])"

text \<open>\<open>checkValidHandshake\<close> tests the socket's own \<open>udtVer\<close>, not the packet's.\<close>

definition checkValidHandshake :: "udtSocket \<Rightarrow> HandshakePacket \<Rightarrow> UDPAddr \<Rightarrow> bool" where
  "checkValidHandshake s p from = (if udtVer s \<noteq> 4 then False else True)"

definition addr_differs :: "UDPAddr \<Rightarrow> UDPAddr \<Rightarrow> bool" where
  "addr_differs from ra = (\<not> IP_Equal (IP from) (IP ra) \<or> Port from \<noteq> Port ra)"

definition launchProcessors :: "udtSocket \<Rightarrow> call list" where
  "launchProcessors s = [newUdtSocketSend, newUdtSocketRecv, cong_init (initPktSeq s)]"

definition lower_mtu :: "udtSocket \<Rightarrow> HandshakePacket \<Rightarrow> udtSocket" where
  "lower_mtu s p = (if mtu s > MaxPktSize p then s\<lparr>mtu := MaxPktSize p\<rparr> else s)"

definition finish_connectWait :: "udtSocket \<Rightarrow> udtSocket \<times> call list" where
  "finish_connectWait s =
     (if connectWait s then (s\<lparr>connectWait := False\<rparr>, [connectWait_Done]) else (s, []))"

text \<open>
  \<open>readHandshake(m, p, from)\<close>: the boolean returned, the socket afterwards and the calls made.
\<close>

definition readHandshake ::
  "udtSocket \<Rightarrow> HandshakePacket \<Rightarrow> UDPAddr \<Rightarrow> u32 \<Rightarrow> bool \<times> udtSocket \<times> call list" where
  "readHandshake s p from ts =
     (if addr_differs from (raddr s) then (False, s, [])
      else case sockState s of
        sockStateInit \<Rightarrow>
          (let s1 = s\<lparr>initPktSeq := InitPktSeq p, udtVer := uint (UdtVer p),
                      farSockID := SockID p, isDatagram := (SockType p = TypeDGRAM)\<rparr>;
               s2 = lower_mtu s1 p;
               s3 = s2\<lparr>sockState := sockStateConnected, connTimeout := False, connRetry := False\<rparr>
           in (True, s3,
               launchProcessors s2 @ [recv_configureHandshake p, send_configureHandshake p True,
                                      go_goManageConnection]
               @ sendHandshake s3 (SynCookie p) HsResponse ts))
      | sockStateConnecting \<Rightarrow>
          (let invalid = (\<not> checkValidHandshake s p from \<or> InitPktSeq p \<noteq> initPktSeq s
                          \<or> addr_differs from (raddr s)
                          \<or> isDatagram s \<noteq> (SockType p = TypeDGRAM))
           in if ReqType p = HsRefused then (True, s\<lparr>sockState := sockStateRefused\<rparr>, [])
              else if ReqType p = HsRequest then
                (if invalid then (True, s, [])
                 else (True, s, sendHandshake s (SynCookie p) HsResponse ts))
              else if ReqType p \<noteq> HsResponse then (True, s, [])
              else if invalid then (True, s, [])
              else
                (let s1 = s\<lparr>farSockID := SockID p\<rparr>;
                     s2 = lower_mtu s1 p;
                     s3 = s2\<lparr>connRetry := False, sockState := sockStateConnected,
                              connTimeout := False\<rparr>;
                     (s4, done) = finish_connectWait s3
                 in (True, s4,
                     launchProcessors s2
                     @ [recv_configureHandshake p, send_configureHandshake p True] @ done)))
      | sockStateRendezvous \<Rightarrow>
          (if ReqType p = HsRefused then (True, s\<lparr>sockState := sockStateRefused\<rparr>, [])
           else if ReqType p \<noteq> HsRendezvous \<or> farSockID s = 0 then (True, s, [])
           else if \<not> checkValidHandshake s p from \<or> addr_differs from (raddr s)
                   \<or> isDatagram s \<noteq> (SockType p = TypeDGRAM) then (True, s, [])
           else
             (let s1 = s\<lparr>farSockID := SockID p\<rparr>;
                  s2 = lower_mtu s1 p;
                  s3 = s2\<lparr>connRetry := False, sockState := sockStateConnected,
                           connTimeout := False\<rparr>;
                  (s4, done) = finish_connectWait s3
              in (True, s4,
                  [m_endRendezvous] @ launchProcessors s2
                  @ [recv_configureHandshake p, send_configureHandshake p False] @ done
                  @ sendHandshake s4 (SynCookie p) HsResponse ts)))
      | sockStateConnected \<Rightarrow>
          (if isServer s \<and> ReqType p = HsRequest
             then (True, s, sendHandshake s (SynCookie p) HsResponse ts)
           else if \<not> isServer s \<and> ReqType p = HsResponse
             then (True, s, sendHandshake s (SynCookie p) HsResponse2 ts)
           else (True, s, []))
      | _ \<Rightarrow> (False, s, []))"

text \<open>
  \<open>readPacket(m, p, from)\<close> at time \<open>tnow\<close>.  A send on a full channel suspends the caller.
\<close>

definition readPacket ::
  "udtSocket \<Rightarrow> Packet \<Rightarrow> UDPAddr \<Rightarrow> nat \<Rightarrow> u32 \<Rightarrow> (udtSocket \<times> call list) outcome" where
  "readPacket s p from tnow ts =
     (if sockState s = sockStateClosed then Returns (s, [])
      else if addr_differs from (raddr s) then Returns (s, [])
      else if length (recvEvent s) \<ge> 256 then Blocks
      else
        (let s1 = s\<lparr>recvEvent := recvEvent s @ [\<lparr>pkt = p, now = tnow\<rparr>]\<rparr>;
             to_sender =
               (if length (sendEvent s1) \<ge> 256 then Blocks
                else Returns (s1\<lparr>sendEvent := sendEvent s1 @ [\<lparr>pkt = p, now = tnow\<rparr>]\<rparr>, []))
         in case p of
              Handshake sp \<Rightarrow>
                (case readHandshake s1 sp from ts of (ok, s2, calls) \<Rightarrow> Returns (s2, calls))
            | ShutdownPacket \<Rightarrow>
                if length (shutdownEvent s1) \<ge> 5 then Blocks
                else Returns (s1\<lparr>shutdownEvent := shutdownEvent s1
                                  @ [\<lparr>sd_sockState = sockStateClosed, permitLinger = True,
                                      err = None\<rparr>]\<rparr>, [])
            | AckPacket \<Rightarrow> to_sender
            | LightAckPacket \<Rightarrow> to_sender
            | NakPacket \<Rightarrow> to_sender
            | UserDefControlPacket \<Rightarrow> Returns (s1, [cong_onCustomMsg])
            | _ \<Rightarrow> Returns (s1, [])))"

section \<open>Path MTU discovery (udt/multiplexer.go)\<close>

text \<open>
  \<open>discoverMTU\<close> reads the interfaces of the host.  The result of \<open>net.Interfaces()\<close> and,
  for each interface, of \<open>iface.Addrs()\<close> are inputs (\<open>Inl\<close> an error).  An address is a
  \<open>*net.IPAddr\<close>, a \<open>*net.IPNet\<close> (address and mask) or of another type.  The library
  functions \<open>IPNet.Contains\<close> and \<open>IP.DefaultMask\<close> are the parameters \<open>Contains\<close> and
  \<open>DefaultMask\<close>.  \<open>net.FlagUp\<close> is bit 0 and \<open>net.FlagLoopback\<close> bit 2 of the flags.
\<close>

datatype Addr = IPAddr bytes | IPNet bytes bytes | OtherAddr

record Interface =
  Name :: string
  MTU :: int
  Flags :: uint
  Addrs :: "error + Addr list"

definition FlagUp :: uint where "FlagUp = 1"
definition FlagLoopback :: uint where "FlagLoopback = 4"

definition absMaxDatagramSize :: int where "absMaxDatagramSize = 2147483646"

fun matching_addrs ::
  "(bytes \<times> bytes \<Rightarrow> bytes \<Rightarrow> bool) \<Rightarrow> (bytes \<Rightarrow> bytes) \<Rightarrow> bytes \<Rightarrow> Interface \<Rightarrow> Addr list
     \<Rightarrow> Interface list" where
  "matching_addrs Contains DefaultMask ourIP iface [] = []"
| "matching_addrs Contains DefaultMask ourIP iface (a # as) =
     (case a of
        IPAddr ip \<Rightarrow>
          (if Contains (ip, DefaultMask ip) ourIP then [iface] else [])
          @ matching_addrs Contains DefaultMask ourIP iface as
      | IPNet ip msk \<Rightarrow>
          (if Contains (ip, msk) ourIP then [iface] else [])
          @ matching_addrs Contains DefaultMask ourIP iface as
      | OtherAddr \<Rightarrow> matching_addrs Contains DefaultMask ourIP iface as)"

fun filter_ifaces ::
  "(bytes \<times> bytes \<Rightarrow> bytes \<Rightarrow> bool) \<Rightarrow> (bytes \<Rightarrow> bytes) \<Rightarrow> bytes \<Rightarrow> Interface list
     \<Rightarrow> Interface list" where
  "filter_ifaces Contains DefaultMask ourIP [] = []"
| "filter_ifaces Contains DefaultMask ourIP (iface # rest) =
     (case Addrs iface of
        Inl e \<Rightarrow> filter_ifaces Contains DefaultMask ourIP rest
      | Inr addrs \<Rightarrow> matching_addrs Contains DefaultMask ourIP iface addrs
                     @ filter_ifaces Contains DefaultMask ourIP rest)"

text \<open>
  The second loop: \<open>if iface.Flags&(net.FlagUp|net.FlagLoopback) == net.FlagUp && iface.MTU > mtu
  { mtu = iface.MTU }\<close>, started with \<open>mtu = 65535\<close>.
\<close>

definition up_not_loopback :: "Interface \<Rightarrow> bool" where
  "up_not_loopback iface = (Flags iface AND (FlagUp OR FlagLoopback) = FlagUp)"

fun largest_mtu :: "Interface list \<Rightarrow> int \<Rightarrow> int" where
  "largest_mtu [] m = m"
| "largest_mtu (iface # rest) m =
     largest_mtu rest (if up_not_loopback iface \<and> MTU iface > m then MTU iface else m)"

definition candidates ::
  "(bytes \<times> bytes \<Rightarrow> bytes \<Rightarrow> bool) \<Rightarrow> (bytes \<Rightarrow> bytes) \<Rightarrow> Interface list \<Rightarrow> bytes
     \<Rightarrow> Interface list" where
  "candidates Contains DefaultMask ifaces ourIP =
     (let filtered = filter_ifaces Contains DefaultMask ourIP ifaces
      in if length filtered = 0 then ifaces else filtered)"

definition discoverMTU ::
  "(bytes \<times> bytes \<Rightarrow> bytes \<Rightarrow> bool) \<Rightarrow> (bytes \<Rightarrow> bytes) \<Rightarrow> error + Interface list \<Rightarrow> bytes
     \<Rightarrow> int \<times> error option" where
  "discoverMTU Contains DefaultMask interfaces ourIP =
     (case interfaces of
        Inl e \<Rightarrow> (65535, Some e)
      | Inr ifaces \<Rightarrow>
          (let m = largest_mtu (candidates Contains DefaultMask ifaces ourIP) 65535
           in (if m > absMaxDatagramSize then absMaxDatagramSize else m, None)))"

section \<open>Verified properties\<close>

subsection \<open>Ordered heaps\<close>

lemma unat_of_nat_u32: "n < 2 ^ 32 \<Longrightarrow> unat (of_nat n :: u32) = n"
  by (simp add: unat_of_nat)

lemma mod_wrap_order:
  fixes a k :: nat
  assumes "a < 2 ^ 31" "0 < k" "k < 2 ^ 30"
  shows "((of_nat a :: u32) < of_nat ((a + k) mod 2 ^ 31)) = (a + k < 2 ^ 31)"
proof -
  define b where "b = (a + k) mod 2 ^ 31"
  have ua: "unat (of_nat a :: u32) = a"
    using assms by (intro unat_of_nat_u32) simp
  have "b < 2 ^ 31" by (simp add: b_def)
  then have ub: "unat (of_nat b :: u32) = b"
    by (intro unat_of_nat_u32) simp
  have "(a < b) = (a + k < 2 ^ 31)"
  proof (cases "a + k < 2 ^ 31")
    case True
    then show ?thesis using assms by (simp add: b_def)
  next
    case False
    then have "b = a + k - 2 ^ 31"
      using assms by (simp add: b_def mod_if)
    then show ?thesis using False assms by simp
  qed
  then show ?thesis
    unfolding b_def [symmetric] by (simp only: word_less_nat_alt ua ub)
qed

text \<open>
  C1 (as amended).  Both \<open>Less\<close> functions compare the raw unsigned sequence numbers.
  For a packet ID \<open>a < 2^31\<close> and \<open>0 < k < 2^30\<close>, the entry holding \<open>a\<close> precedes the
  entry holding \<open>(a + k) mod 2^31\<close> exactly when \<open>a + k < 2^31\<close>, that is when the
  addition does not wrap; across the wrap the order is reversed.
\<close>

theorem Less_raw_order:
  fixes a k :: nat
  assumes "a < 2 ^ 31" "0 < k" "k < 2 ^ 30"
    and "at h i = Inr x" "at h j = Inr y"
    and "DataPacket.Seq x = of_nat a" "DataPacket.Seq y = of_nat ((a + k) mod 2 ^ 31)"
    and "at g i' = Inr x'" "at g j' = Inr y'"
    and "PacketID.Seq x' = of_nat a" "PacketID.Seq y' = of_nat ((a + k) mod 2 ^ 31)"
  shows "dataPacketHeap_Less h i j = Inr (a + k < 2 ^ 31)
       \<and> packetIDHeap_Less g i' j' = Inr (a + k < 2 ^ 31)"
  using assms mod_wrap_order [of a k]
  by (simp add: dataPacketHeap_Less_def packetIDHeap_Less_def)

theorem Less_raw_order_witness:
  "dataPacketHeap_Less [\<lparr>DataPacket.Seq = 5, Data = []\<rparr>, \<lparr>DataPacket.Seq = 12, Data = []\<rparr>] 0 1
     = Inr True
   \<and> packetIDHeap_Less [\<lparr>PacketID.Seq = 5\<rparr>, \<lparr>PacketID.Seq = 12\<rparr>] 0 1 = Inr True"
  using Less_raw_order [of 5 7
      "[\<lparr>DataPacket.Seq = 5, Data = []\<rparr>, \<lparr>DataPacket.Seq = 12, Data = []\<rparr>]" 0
      "\<lparr>DataPacket.Seq = 5, Data = []\<rparr>" 1 "\<lparr>DataPacket.Seq = 12, Data = []\<rparr>"
      "[\<lparr>PacketID.Seq = 5\<rparr>, \<lparr>PacketID.Seq = 12\<rparr>]" 0 "\<lparr>PacketID.Seq = 5\<rparr>" 1
      "\<lparr>PacketID.Seq = 12\<rparr>"]
  by (simp add: at_def)

text \<open>
  C1 as stated fails at the wrap: with \<open>a = 2^31 - 1\<close> and \<open>k = 1\<close> the successor
  \<open>(a + k) mod 2^31\<close> is \<open>0\<close>, and neither \<open>Less\<close> puts \<open>a\<close> before it.
\<close>

theorem Less_wrap_counterexample:
  "(0::nat) < 1 \<and> (1::nat) < 2 ^ 30 \<and> (2147483647 + 1) mod 2 ^ 31 = (0::nat)
   \<and> dataPacketHeap_Less
        [\<lparr>DataPacket.Seq = 2147483647, Data = []\<rparr>, \<lparr>DataPacket.Seq = 0, Data = []\<rparr>] 0 1
       = Inr False
   \<and> packetIDHeap_Less [\<lparr>PacketID.Seq = 2147483647\<rparr>, \<lparr>PacketID.Seq = 0\<rparr>] 0 1 = Inr False"
  by (simp add: dataPacketHeap_Less_def packetIDHeap_Less_def at_def)

lemma at_0: "h \<noteq> [] \<Longrightarrow> at h 0 = Inr (h ! 0)"
  by (simp add: at_def)

text \<open>
  A walk that is at index 0 and steps to \<open>idx * 2\<close> stays at index 0.  Each lemma is by
  fixpoint induction on the loop: no approximation of the loop returns from that state.
\<close>

lemma dataPacketHeap_Min_loop_stuck:
  "dataPacketHeap_Min_loop h idx = Some y \<Longrightarrow> h \<noteq> [] \<longrightarrow> idx \<noteq> 0"
  by (rule dataPacketHeap_Min_loop.raw_induct [where P = "\<lambda>h idx y. h \<noteq> [] \<longrightarrow> idx \<noteq> 0"])
     (force split: if_splits)

lemma dataPacketHeap_Find_loop_stuck:
  "dataPacketHeap_Find_loop h p idx = Some y \<Longrightarrow>
     h \<noteq> [] \<and> DataPacket.Seq (h ! 0) > p \<longrightarrow> idx \<noteq> 0"
  apply (rule dataPacketHeap_Find_loop.raw_induct
        [where P = "\<lambda>h p idx y. h \<noteq> [] \<and> DataPacket.Seq (h ! 0) > p \<longrightarrow> idx \<noteq> 0"])
   apply (intro impI notI)
   apply (simp add: at_0 split: if_splits)
   apply blast
  apply assumption
  done

lemma packetIDHeap_Min_loop_stuck:
  "packetIDHeap_Min_loop h ge le w idx = Some y \<Longrightarrow>
     h \<noteq> [] \<and> PacketID.Seq (h ! 0) > PacketID.Seq ge \<longrightarrow> idx \<noteq> 0"
  apply (rule packetIDHeap_Min_loop.raw_induct
        [where P = "\<lambda>h ge le w idx y.
                      h \<noteq> [] \<and> PacketID.Seq (h ! 0) > PacketID.Seq ge \<longrightarrow> idx \<noteq> 0"])
   apply (intro impI notI)
   apply (simp add: at_0 split: if_splits)
   apply blast
  apply assumption
  done

text \<open>
  C2 (the code departs from the claim).  The heap with sequence numbers 1, 2, 3 is in heap
  order and holds the packet 3, yet \<open>Find 3\<close> returns nil and \<open>-1\<close> and \<open>Remove 3\<close>
  returns false and leaves the heap as it was: the walk goes 0, 1, 3 and never visits
  index 2.  On the heap holding only 5, which does not contain 3, \<open>Find 3\<close> does not return.
\<close>

theorem Find_Remove_miss_present_packet:
  "heap_ordered [\<lparr>DataPacket.Seq = 1, Data = []\<rparr>, \<lparr>DataPacket.Seq = 2, Data = []\<rparr>,
                 \<lparr>DataPacket.Seq = 3, Data = []\<rparr>]
   \<and> \<lparr>DataPacket.Seq = 3, Data = []\<rparr>
       \<in> set [\<lparr>DataPacket.Seq = 1, Data = []\<rparr>, \<lparr>DataPacket.Seq = 2, Data = []\<rparr>,
               \<lparr>DataPacket.Seq = 3, Data = []\<rparr>]
   \<and> dataPacketHeap_Find [\<lparr>DataPacket.Seq = 1, Data = []\<rparr>, \<lparr>DataPacket.Seq = 2, Data = []\<rparr>,
                          \<lparr>DataPacket.Seq = 3, Data = []\<rparr>] 3
       = Some (Inr (None, -1))
   \<and> dataPacketHeap_Remove heap_Remove
        [\<lparr>DataPacket.Seq = 1, Data = []\<rparr>, \<lparr>DataPacket.Seq = 2, Data = []\<rparr>,
         \<lparr>DataPacket.Seq = 3, Data = []\<rparr>] 3
       = Some (Inr ([\<lparr>DataPacket.Seq = 1, Data = []\<rparr>, \<lparr>DataPacket.Seq = 2, Data = []\<rparr>,
                     \<lparr>DataPacket.Seq = 3, Data = []\<rparr>], False))
   \<and> dataPacketHeap_Find [\<lparr>DataPacket.Seq = 5, Data = []\<rparr>] 3 = None"
proof (intro conjI)
  show "heap_ordered [\<lparr>DataPacket.Seq = 1, Data = []\<rparr>, \<lparr>DataPacket.Seq = 2, Data = []\<rparr>,
                      \<lparr>DataPacket.Seq = 3, Data = []\<rparr>]"
    by (simp add: heap_ordered_def upt_conv_Cons)
  show "\<lparr>DataPacket.Seq = 3, Data = []\<rparr>
       \<in> set [\<lparr>DataPacket.Seq = 1, Data = []\<rparr>, \<lparr>DataPacket.Seq = 2, Data = []\<rparr>,
               \<lparr>DataPacket.Seq = 3, Data = []\<rparr>]"
    by simp
  show "dataPacketHeap_Find [\<lparr>DataPacket.Seq = 1, Data = []\<rparr>, \<lparr>DataPacket.Seq = 2, Data = []\<rparr>,
                          \<lparr>DataPacket.Seq = 3, Data = []\<rparr>] 3
       = Some (Inr (None, -1))"
    unfolding dataPacketHeap_Find_def
    apply (subst dataPacketHeap_Find_loop.simps, simp add: at_def)
    apply (subst dataPacketHeap_Find_loop.simps, simp add: at_def)
    apply (subst dataPacketHeap_Find_loop.simps, simp add: at_def)
    done
  show "dataPacketHeap_Remove heap_Remove
        [\<lparr>DataPacket.Seq = 1, Data = []\<rparr>, \<lparr>DataPacket.Seq = 2, Data = []\<rparr>,
         \<lparr>DataPacket.Seq = 3, Data = []\<rparr>] 3
       = Some (Inr ([\<lparr>DataPacket.Seq = 1, Data = []\<rparr>, \<lparr>DataPacket.Seq = 2, Data = []\<rparr>,
                     \<lparr>DataPacket.Seq = 3, Data = []\<rparr>], False))"
    unfolding dataPacketHeap_Remove_def
    apply (subst dataPacketHeap_Remove_loop.simps, simp add: at_def)
    apply (subst dataPacketHeap_Remove_loop.simps, simp add: at_def)
    apply (subst dataPacketHeap_Remove_loop.simps, simp add: at_def)
    done
  show "dataPacketHeap_Find [\<lparr>DataPacket.Seq = 5, Data = []\<rparr>] 3 = None"
    using dataPacketHeap_Find_loop_stuck [of "[\<lparr>DataPacket.Seq = 5, Data = []\<rparr>]" 3 0]
    unfolding dataPacketHeap_Find_def
    by (cases "dataPacketHeap_Find_loop [\<lparr>DataPacket.Seq = 5, Data = []\<rparr>] 3 0") simp_all
qed

text \<open>
  C3 (the code departs from the claim).  \<open>dataPacketHeap.Min\<close> returns for no non-empty
  heap: \<open>idx * 2\<close> is 0 at index 0, so the loop never leaves index 0.
  \<open>packetIDHeap.Min\<close> does not return either whenever the first entry is larger than
  \<open>greaterEqual\<close>, for the same reason.
\<close>

theorem Min_does_not_return:
  "(h \<noteq> [] \<longrightarrow> dataPacketHeap_Min h = None)
   \<and> (g \<noteq> [] \<and> PacketID.Seq (g ! 0) > PacketID.Seq ge \<longrightarrow> packetIDHeap_Min g ge le = None)"
  using dataPacketHeap_Min_loop_stuck [of h 0] packetIDHeap_Min_loop_stuck [of g ge le _ 0]
  unfolding dataPacketHeap_Min_def packetIDHeap_Min_def
  by (metis not_Some_eq)

theorem Min_does_not_return_witness:
  "dataPacketHeap_Min [\<lparr>DataPacket.Seq = 5, Data = []\<rparr>] = None
   \<and> packetIDHeap_Min [\<lparr>PacketID.Seq = 5\<rparr>] \<lparr>PacketID.Seq = 3\<rparr> \<lparr>PacketID.Seq = 10\<rparr> = None"
  using Min_does_not_return [of "[\<lparr>DataPacket.Seq = 5, Data = []\<rparr>]" "[\<lparr>PacketID.Seq = 5\<rparr>]"
      "\<lparr>PacketID.Seq = 3\<rparr>" "\<lparr>PacketID.Seq = 10\<rparr>"]
  by simp

text \<open>On the empty heap \<open>dataPacketHeap.Min\<close> reads \<open>h[0]\<close> and panics.\<close>

lemma dataPacketHeap_Min_empty: "dataPacketHeap_Min [] = Some (Inl IndexOutOfRange)"
  unfolding dataPacketHeap_Min_def
  by (subst dataPacketHeap_Min_loop.simps) (simp add: at_def)

subsection \<open>RTT and rate estimates\<close>

lemma unat_drop_bit_div: "unat (drop_bit k (w::uint)) = unat w div 2 ^ k"
  by (simp only: unat_drop_bit_eq) (simp add: drop_bit_eq_div)

lemma absdiff_unat:
  "unat (absdiff a b) = (if unat a < unat b then unat b - unat a else unat a - unat b)"
  by (simp add: absdiff_def word_less_nat_alt unat_sub word_le_nat_alt)

lemma absdiff_less: "unat a < m \<Longrightarrow> unat b < m \<Longrightarrow> unat (absdiff a b) < m"
  by (auto simp: absdiff_unat)

lemma applyRTT_unat:
  assumes "unat (rtt s) < 2 ^ 61" "unat (rttVar s) < 2 ^ 61" "unat x < 2 ^ 61"
  shows "unat (rtt (applyRTT s x)) = (unat (rtt s) * 7 + unat x) div 8"
    and "unat (rttVar (applyRTT s x)) = (unat (rttVar s) * 3 + unat (absdiff (rtt s) x)) div 4"
proof -
  have "unat (rtt s) * 7 + unat x < 2 ^ 64" using assms by simp
  then have "unat (rtt s * 7 + x) = unat (rtt s) * 7 + unat x"
    by (simp add: unat_word_ariths)
  then show "unat (rtt (applyRTT s x)) = (unat (rtt s) * 7 + unat x) div 8"
    by (simp add: applyRTT_def Let_def unat_drop_bit_div)
  let ?d = "unat (absdiff (rtt s) x)"
  have "?d < 2 ^ 61" using assms by (intro absdiff_less)
  then have "unat (rttVar s) * 3 + ?d < 2 ^ 64" using assms by simp
  then have "unat (rttVar s * 3 + absdiff (rtt s) x) = unat (rttVar s) * 3 + ?d"
    by (simp add: unat_word_ariths)
  then show "unat (rttVar (applyRTT s x)) = (unat (rttVar s) * 3 + ?d) div 4"
    by (simp add: applyRTT_def Let_def unat_drop_bit_div)
qed

lemma applyRTT_step_bounds:
  assumes "unat (rtt s) < 2 ^ 61" "unat (rttVar s) < 2 ^ 61" "unat x < 2 ^ 61"
  shows "unat (rtt (applyRTT s x)) < 2 ^ 61"
    and "unat (rttVar (applyRTT s x)) < 2 ^ 61"
    and "8 * unat (absdiff (rtt (applyRTT s x)) x) \<le> 7 * unat (absdiff (rtt s) x) + 7"
    and "4 * unat (rttVar (applyRTT s x)) \<le> 3 * unat (rttVar s) + unat (absdiff (rtt s) x)"
proof -
  note eqs = applyRTT_unat [OF assms]
  show "unat (rtt (applyRTT s x)) < 2 ^ 61" using assms unfolding eqs by simp
  have "unat (absdiff (rtt s) x) < 2 ^ 61" using assms by (intro absdiff_less)
  then show "unat (rttVar (applyRTT s x)) < 2 ^ 61" using assms unfolding eqs by simp
  show "8 * unat (absdiff (rtt (applyRTT s x)) x) \<le> 7 * unat (absdiff (rtt s) x) + 7"
    unfolding absdiff_unat eqs by (simp split: if_splits) arith
  show "4 * unat (rttVar (applyRTT s x)) \<le> 3 * unat (rttVar s) + unat (absdiff (rtt s) x)"
    unfolding eqs by simp
qed

lemma ewma_induction_step:
  fixes E S d d' v v' d0 v0 :: nat
  assumes "8 * d' \<le> 7 * d + 7" "4 * v' \<le> 3 * v + d"
    and "E * d \<le> S * d0 + 7 * E" "E * v \<le> S * (v0 + 2 * d0) + 7 * E"
  shows "(8 * E) * d' \<le> (7 * S) * d0 + 7 * (8 * E)"
    and "(8 * E) * v' \<le> (7 * S) * (v0 + 2 * d0) + 7 * (8 * E)"
proof -
  have a: "E * (8 * d') \<le> E * (7 * d + 7)" using assms(1) by (rule mult_le_mono2)
  have b: "E * (4 * v') \<le> E * (3 * v + d)" using assms(2) by (rule mult_le_mono2)
  from a assms(3) show "(8 * E) * d' \<le> (7 * S) * d0 + 7 * (8 * E)"
    by (simp add: algebra_simps)
  from b assms(3,4) show "(8 * E) * v' \<le> (7 * S) * (v0 + 2 * d0) + 7 * (8 * E)"
    by (simp add: algebra_simps)
qed

lemma applyRTT_iterate:
  assumes "unat (rtt s) < 2 ^ 61" "unat (rttVar s) < 2 ^ 61" "unat x < 2 ^ 61"
  shows "unat (rtt (((\<lambda>t. applyRTT t x) ^^ n) s)) < 2 ^ 61
       \<and> unat (rttVar (((\<lambda>t. applyRTT t x) ^^ n) s)) < 2 ^ 61
       \<and> 8 ^ n * unat (absdiff (rtt (((\<lambda>t. applyRTT t x) ^^ n) s)) x)
            \<le> 7 ^ n * unat (absdiff (rtt s) x) + 7 * 8 ^ n
       \<and> 8 ^ n * unat (rttVar (((\<lambda>t. applyRTT t x) ^^ n) s))
            \<le> 7 ^ n * (unat (rttVar s) + 2 * unat (absdiff (rtt s) x)) + 7 * 8 ^ n"
proof (induction n)
  case 0
  show ?case using assms by simp
next
  case (Suc n)
  let ?t = "((\<lambda>t. applyRTT t x) ^^ n) s"
  from Suc.IH have r: "unat (rtt ?t) < 2 ^ 61" and v: "unat (rttVar ?t) < 2 ^ 61"
    and ihd: "8 ^ n * unat (absdiff (rtt ?t) x) \<le> 7 ^ n * unat (absdiff (rtt s) x) + 7 * 8 ^ n"
    and ihv: "8 ^ n * unat (rttVar ?t)
            \<le> 7 ^ n * (unat (rttVar s) + 2 * unat (absdiff (rtt s) x)) + 7 * 8 ^ n"
    by simp_all
  note st = applyRTT_step_bounds [OF r v assms(3)]
  note ind = ewma_induction_step [OF st(3) st(4) ihd ihv]
  show ?case using st(1,2) ind by simp
qed


text \<open>
  C5 (as amended).  As long as the values stay below \<open>2^61\<close> microseconds (so that the
  64-bit products do not wrap), \<open>applyRTT\<close> replaces RTT by \<open>(7 * RTT + sample) div 8\<close>
  and RTTvar by \<open>(3 * RTTvar + |RTT - sample|) div 4\<close>, the deviation being taken from
  the old RTT: the weight of the old value is 7/8 for RTT and 3/4 for RTTvar.  After \<open>n\<close>
  applications of the same sample, \<open>|RTT - sample| \<le> (7/8)^n * |RTT\<^sub>0 - sample| + 7\<close> and
  \<open>RTTvar \<le> (7/8)^n * (RTTvar\<^sub>0 + 2 * |RTT\<^sub>0 - sample|) + 7\<close>; the bounds are stated
  multiplied by \<open>8^n\<close>.
\<close>

theorem applyRTT_ewma_convergence:
  assumes "unat (rtt s) < 2 ^ 61" "unat (rttVar s) < 2 ^ 61" "unat x < 2 ^ 61"
  shows "unat (rtt (applyRTT s x)) = (unat (rtt s) * 7 + unat x) div 8
       \<and> unat (rttVar (applyRTT s x)) = (unat (rttVar s) * 3 + unat (absdiff (rtt s) x)) div 4
       \<and> 8 ^ n * unat (absdiff (rtt (((\<lambda>t. applyRTT t x) ^^ n) s)) x)
            \<le> 7 ^ n * unat (absdiff (rtt s) x) + 7 * 8 ^ n
       \<and> 8 ^ n * unat (rttVar (((\<lambda>t. applyRTT t x) ^^ n) s))
            \<le> 7 ^ n * (unat (rttVar s) + 2 * unat (absdiff (rtt s) x)) + 7 * 8 ^ n"
  using applyRTT_unat [OF assms] applyRTT_iterate [OF assms, of n] by simp

theorem applyRTT_ewma_convergence_witness:
  "unat (rtt (applyRTT (newSocket 1500 0 0 25600 7 1 False True \<lparr>IP = [10, 0, 0, 2], Port = 9000\<rparr>) 800)) = 100
   \<and> unat (rttVar (applyRTT (newSocket 1500 0 0 25600 7 1 False True \<lparr>IP = [10, 0, 0, 2], Port = 9000\<rparr>) 800)) = 200"
  using applyRTT_ewma_convergence
    [of "newSocket 1500 0 0 25600 7 1 False True \<lparr>IP = [10, 0, 0, 2], Port = 9000\<rparr>" 800 0]
  by (simp add: newSocket_def absdiff_def)

text \<open>
  C5 as stated fails for RTTvar: from RTT = 0 and RTTvar = 0 one sample of 800 gives
  RTTvar = 200, which is neither the 7/8 average \<open>(7 * 0 + 800) div 8 = 100\<close> nor within
  a factor 7/8 (up to rounding) of the old distance 0 from the limit.
\<close>

theorem applyRTT_rttVar_counterexample:
  "unat (rttVar (newSocket 1500 0 0 25600 7 1 False True \<lparr>IP = [10, 0, 0, 2], Port = 9000\<rparr>)) = 0
   \<and> unat (absdiff (rtt (newSocket 1500 0 0 25600 7 1 False True \<lparr>IP = [10, 0, 0, 2], Port = 9000\<rparr>)) 800) = 800
   \<and> unat (rttVar (applyRTT (newSocket 1500 0 0 25600 7 1 False True \<lparr>IP = [10, 0, 0, 2], Port = 9000\<rparr>) 800)) = 200
   \<and> (200::nat) \<noteq> (7 * 0 + 800) div 8
   \<and> \<not> (8 * (200::nat) \<le> 7 * 0 + 7)"
  by (simp add: newSocket_def applyRTT_def absdiff_def Let_def)

text \<open>
  C10.  \<open>applyReceiveRates\<close> leaves the delivery rate unchanged when the delivery rate
  sample is 0 and the bandwidth unchanged when the bandwidth sample is 0; a positive sample
  replaces the stored value by \<open>(7 * old + sample) div 8\<close>, in 64-bit unsigned arithmetic
  and, when \<open>7 * old + sample\<close> does not exceed 64 bits, as natural numbers.  No other field
  of the socket changes.
\<close>

theorem applyReceiveRates_positive_sample:
  "(dRate = 0 \<longrightarrow> deliveryRate (applyReceiveRates s dRate bw) = deliveryRate s)
   \<and> (bw = 0 \<longrightarrow> bandwidth (applyReceiveRates s dRate bw) = bandwidth s)
   \<and> (dRate > 0 \<longrightarrow>
        deliveryRate (applyReceiveRates s dRate bw) = (7 * deliveryRate s + dRate) div 8)
   \<and> (bw > 0 \<longrightarrow> bandwidth (applyReceiveRates s dRate bw) = (7 * bandwidth s + bw) div 8)
   \<and> (dRate > 0 \<and> 7 * unat (deliveryRate s) + unat dRate < 2 ^ 64 \<longrightarrow>
        unat (deliveryRate (applyReceiveRates s dRate bw))
          = (7 * unat (deliveryRate s) + unat dRate) div 8)
   \<and> (bw > 0 \<and> 7 * unat (bandwidth s) + unat bw < 2 ^ 64 \<longrightarrow>
        unat (bandwidth (applyReceiveRates s dRate bw)) = (7 * unat (bandwidth s) + unat bw) div 8)
   \<and> (applyReceiveRates s dRate bw)\<lparr>deliveryRate := deliveryRate s, bandwidth := bandwidth s\<rparr> = s"
proof -
  have w: "drop_bit 3 (a * 7 + b) = (7 * a + b) div 8" for a b :: uint
    by (simp add: drop_bit_eq_div mult.commute)
  have n: "unat (drop_bit 3 (a * 7 + b)) = (7 * unat a + unat b) div 8"
    if "7 * unat a + unat b < 2 ^ 64" for a b :: uint
  proof -
    have "unat (a * 7 + b) = 7 * unat a + unat b"
      using that by (simp add: unat_word_ariths mult.commute)
    then show ?thesis by (simp add: unat_drop_bit_div)
  qed
  show ?thesis
    using n [of "deliveryRate s" dRate] n [of "bandwidth s" bw]
    by (simp add: applyReceiveRates_def Let_def w word_gt_0)
qed

theorem applyReceiveRates_positive_sample_witness:
  "deliveryRate (applyReceiveRates (newSocket 1500 0 0 25600 7 1 False True \<lparr>IP = [10, 0, 0, 2], Port = 9000\<rparr>) 8 0) = 15
   \<and> bandwidth (applyReceiveRates (newSocket 1500 0 0 25600 7 1 False True \<lparr>IP = [10, 0, 0, 2], Port = 9000\<rparr>) 8 0) = 1"
  using applyReceiveRates_positive_sample
    [of 8 "newSocket 1500 0 0 25600 7 1 False True \<lparr>IP = [10, 0, 0, 2], Port = 9000\<rparr>" 0]
  by (simp add: newSocket_def)

end
